theory Spec2Isabelle
  imports Complex_Main
begin

section \<open>Python values, dictionaries and exceptions\<close>

text \<open>
  The services pass around dynamically typed dictionaries (\<^verbatim>\<open>Dict[str, Any]\<close>): the
  filter specification, the query embedding bundle and the payload of a stored point.
  A dictionary is an association list in insertion order; its keys are strings.
\<close>

datatype pyval =
    PNone
  | PBool bool
  | PInt int
  | PFloat real
  | PStr string
  | PList "pyval list"
  | PDict "(string \<times> pyval) list"

type_synonym pydict = "(string \<times> pyval) list"

text \<open>Python's truth value of an object, as tested by \<^verbatim>\<open>if x\<close> and \<^verbatim>\<open>x or y\<close>.\<close>

fun truthy :: "pyval \<Rightarrow> bool" where
  "truthy PNone = False"
| "truthy (PBool b) = b"
| "truthy (PInt i) = (i \<noteq> 0)"
| "truthy (PFloat x) = (x \<noteq> 0)"
| "truthy (PStr s) = (s \<noteq> [])"
| "truthy (PList xs) = (xs \<noteq> [])"
| "truthy (PDict d) = (d \<noteq> [])"

text \<open>\<^verbatim>\<open>d.get(k, default)\<close>, \<^verbatim>\<open>d.get(k)\<close>, \<^verbatim>\<open>k in d\<close> and \<^verbatim>\<open>d[k] = v\<close>.\<close>

definition dict_get_default :: "pydict \<Rightarrow> string \<Rightarrow> pyval \<Rightarrow> pyval" where
  "dict_get_default d k dflt = (case map_of d k of None \<Rightarrow> dflt | Some v \<Rightarrow> v)"

definition dict_get :: "pydict \<Rightarrow> string \<Rightarrow> pyval" where
  "dict_get d k = dict_get_default d k PNone"

definition dict_contains :: "pydict \<Rightarrow> string \<Rightarrow> bool" where
  "dict_contains d k = (map_of d k \<noteq> None)"

fun dict_set :: "pydict \<Rightarrow> string \<Rightarrow> pyval \<Rightarrow> pydict" where
  "dict_set [] k v = [(k, v)]"
| "dict_set ((k', v') # d) k v = (if k' = k then (k, v) # d else (k', v') # dict_set d k v)"

text \<open>
  The exceptions that matter here, all of them subclasses of Python's \<^verbatim>\<open>Exception\<close>,
  so that \<^verbatim>\<open>except Exception\<close> catches each of them. \<open>ConnectionError\<close> is the
  connectivity-level failure (the index cannot be reached); \<open>UnexpectedResponse\<close> is a
  query-level failure reported by a reachable index.
\<close>

datatype py_exception =
    ConnectionError
  | TimeoutError
  | UnexpectedResponse
  | TypeError
  | IndexError
  | ValueError
  | RuntimeError

fun str_exception :: "py_exception \<Rightarrow> string" where
  "str_exception ConnectionError = ''ConnectionError''"
| "str_exception TimeoutError = ''TimeoutError''"
| "str_exception UnexpectedResponse = ''UnexpectedResponse''"
| "str_exception TypeError = ''TypeError''"
| "str_exception IndexError = ''IndexError''"
| "str_exception ValueError = ''ValueError''"
| "str_exception RuntimeError = ''RuntimeError''"

section \<open>The filter compiler: \<^verbatim>\<open>AdvancedQdrantService._build_filter\<close>\<close>

text \<open>The models of the index client library that the compiler builds, as plain data.\<close>

datatype match_cond = MatchValue pyval | MatchAny "pyval list"

datatype range_cond = Range (gte: "pyval option") (lte: "pyval option")

datatype field_condition =
  FieldCondition (key: string) (match: "match_cond option") (range: "range_cond option")

text \<open>
  A filter of the index has three clauses; \<^verbatim>\<open>Filter(must=conditions)\<close> leaves
  \<open>should\<close> and \<open>must_not\<close> unset.
\<close>

datatype qdrant_filter =
  Filter (must: "field_condition list option")
         (should: "field_condition list option")
         (must_not: "field_condition list option")

definition filterable_fields :: "string list" where
  "filterable_fields =
     [''jurisdiction'', ''court_level'', ''case_type'', ''industry'',
      ''company_size'', ''contract_status'', ''complexity_level'',
      ''risk_level'', ''renewal_terms'']"

text \<open>One pass of the loop body over \<open>field\<close>: the conditions it appends.\<close>

definition field_conditions :: "pydict \<Rightarrow> string \<Rightarrow> field_condition list" where
  "field_conditions filters field =
     (if truthy (dict_get filters field) then
        (case dict_get filters field of
           PList field_values \<Rightarrow>
             (if length field_values > 0 then
                (if length field_values = 1
                 then [FieldCondition field (Some (MatchValue (field_values ! 0))) None]
                 else [FieldCondition field (Some (MatchAny field_values)) None])
              else [])
         | _ \<Rightarrow> [])
      else [])"

primrec build_filter_loop ::
  "pydict \<Rightarrow> string list \<Rightarrow> field_condition list \<Rightarrow> field_condition list" where
  "build_filter_loop filters [] conditions = conditions"
| "build_filter_loop filters (field # fields) conditions =
     build_filter_loop filters fields (conditions @ field_conditions filters field)"

definition date_conditions :: "pydict \<Rightarrow> field_condition list" where
  "date_conditions filters =
     (if truthy (dict_get filters ''date_from'') \<or> truthy (dict_get filters ''date_to'') then
        [FieldCondition ''date_filed'' None
           (Some (Range
              (if truthy (dict_get filters ''date_from'')
               then Some (dict_get filters ''date_from'') else None)
              (if truthy (dict_get filters ''date_to'')
               then Some (dict_get filters ''date_to'') else None)))]
      else [])"

definition build_filter :: "pydict \<Rightarrow> qdrant_filter option" where
  "build_filter filters =
     (let conditions = build_filter_loop filters filterable_fields [];
          conditions = conditions @ date_conditions filters
      in if conditions \<noteq> [] then Some (Filter (Some conditions) None None) else None)"

text \<open>
  The call site in both searches: \<^verbatim>\<open>self._build_filter(filters) if filters else None\<close>,
  where \<open>filters\<close> is an optional dictionary (absent is \<open>None\<close>).
\<close>

definition compile_filter :: "pydict option \<Rightarrow> qdrant_filter option" where
  "compile_filter filters =
     (case filters of
        None \<Rightarrow> None
      | Some d \<Rightarrow> (if d \<noteq> [] then build_filter d else None))"

text \<open>
  The value of \<open>conditions\<close> when \<^verbatim>\<open>_build_filter\<close> returns: what the loop over
  the recognised fields appends, field by field, followed by the date range.
\<close>

definition emitted_conditions :: "pydict \<Rightarrow> field_condition list" where
  "emitted_conditions filters =
     concat (map (field_conditions filters) filterable_fields) @ date_conditions filters"

text \<open>
  How the index reads a filter: every \<open>must\<close> condition holds, at least one
  \<open>should\<close> condition holds when that clause is given, and no \<open>must_not\<close>
  condition holds. What it means for one condition to hold on a document is the index's
  business and is a parameter.
\<close>

definition filter_accepts ::
  "(field_condition \<Rightarrow> 'doc \<Rightarrow> bool) \<Rightarrow> qdrant_filter \<Rightarrow> 'doc \<Rightarrow> bool" where
  "filter_accepts holds f doc =
     ((case must f of None \<Rightarrow> True | Some cs \<Rightarrow> list_all (\<lambda>c. holds c doc) cs) \<and>
      (case should f of None \<Rightarrow> True | Some cs \<Rightarrow> list_ex (\<lambda>c. holds c doc) cs) \<and>
      (case must_not f of None \<Rightarrow> True | Some cs \<Rightarrow> \<not> list_ex (\<lambda>c. holds c doc) cs))"

section \<open>The index client and the service object\<close>

text \<open>
  A stage of the funnel, \<^verbatim>\<open>Prefetch(prefetch=..., query=..., using=..., limit=..., filter=...)\<close>;
  arguments that a call leaves out are \<open>None\<close>.
\<close>

datatype prefetch =
  Prefetch (pf_prefetch: "prefetch option") (pf_query: pyval) (pf_using: string)
           (pf_limit: int) (pf_filter: "qdrant_filter option")

text \<open>The keyword arguments of \<^verbatim>\<open>client.query_points\<close> and of \<^verbatim>\<open>client.search\<close>.\<close>

record query_request =
  qr_collection_name :: string
  qr_prefetch :: prefetch
  qr_query :: pyval
  qr_using :: string
  qr_limit :: int
  qr_query_filter :: "qdrant_filter option"
  qr_with_payload :: bool

record search_request =
  sr_collection_name :: string
  sr_query_vector :: pyval
  sr_query_filter :: "qdrant_filter option"
  sr_limit :: int
  sr_score_threshold :: real
  sr_with_payload :: bool

text \<open>
  A hit of the index. Both searches ask for \<^verbatim>\<open>with_payload=True\<close>, so a hit carries its
  payload dictionary.
\<close>

record scored_point =
  sp_id :: pyval
  sp_payload :: pydict
  sp_score :: real

record collection_info =
  ci_status :: string
  ci_points_count :: int
  ci_vectors_count :: int

text \<open>
  The index itself is not part of the repository: the client is a record of the calls the
  service makes, each returning its result or the exception it raises.
\<close>

record qdrant =
  query_points :: "query_request \<Rightarrow> py_exception + scored_point list"
  search :: "search_request \<Rightarrow> py_exception + scored_point list"
  retrieve :: "string \<Rightarrow> string list \<Rightarrow> py_exception + pydict list"
  get_collection :: "string \<Rightarrow> py_exception + collection_info"

record settings =
  app_version :: string
  qdrant_collection_name :: string
  similarity_threshold :: real

text \<open>The defaults of \<^verbatim>\<open>Settings\<close> in \<^verbatim>\<open>configuration.py\<close>.\<close>

definition default_settings :: settings where
  "default_settings =
     \<lparr>app_version = ''2.0.0'',
      qdrant_collection_name = ''cuad_contracts_v2'',
      similarity_threshold = 3 / 10\<rparr>"

record service =
  client :: qdrant
  collection_name :: string

section \<open>The retrieval funnel: \<^verbatim>\<open>advanced_search\<close> and \<^verbatim>\<open>_fallback_search\<close>\<close>

text \<open>The result formatting loop shared by both searches.\<close>

primrec format_results :: "scored_point list \<Rightarrow> pydict list" where
  "format_results [] = []"
| "format_results (result # points) =
     dict_set (sp_payload result) ''score'' (PFloat (sp_score result)) # format_results points"

text \<open>Stage 1 and stage 2 of \<^verbatim>\<open>advanced_search\<close>.\<close>

definition prefetch_stage :: "pydict \<Rightarrow> pydict option \<Rightarrow> int \<Rightarrow> prefetch" where
  "prefetch_stage query_embeddings filters prefetch_limit =
     Prefetch None
       (dict_get_default query_embeddings ''byte'' (dict_get query_embeddings ''dense''))
       ''byte'' prefetch_limit (compile_filter filters)"

definition rerank_stage :: "pydict \<Rightarrow> pydict option \<Rightarrow> int \<Rightarrow> int \<Rightarrow> prefetch" where
  "rerank_stage query_embeddings filters prefetch_limit rerank_limit =
     (if dict_contains query_embeddings ''rerank'' then
        Prefetch (Some (prefetch_stage query_embeddings filters prefetch_limit))
          (dict_get query_embeddings ''rerank'') ''rerank'' rerank_limit None
      else prefetch_stage query_embeddings filters prefetch_limit)"

text \<open>Stage 3: the arguments of the \<^verbatim>\<open>query_points\<close> call.\<close>

definition funnel_request ::
  "service \<Rightarrow> pydict \<Rightarrow> pydict option \<Rightarrow> int \<Rightarrow> int \<Rightarrow> int \<Rightarrow> query_request" where
  "funnel_request self query_embeddings filters limit prefetch_limit rerank_limit =
     (if dict_contains query_embeddings ''colbert'' then
        \<lparr>qr_collection_name = collection_name self,
         qr_prefetch = rerank_stage query_embeddings filters prefetch_limit rerank_limit,
         qr_query = dict_get query_embeddings ''colbert'',
         qr_using = ''colbert'',
         qr_limit = limit,
         qr_query_filter = None,
         qr_with_payload = True\<rparr>
      else
        \<lparr>qr_collection_name = collection_name self,
         qr_prefetch = rerank_stage query_embeddings filters prefetch_limit rerank_limit,
         qr_query = dict_get query_embeddings ''dense'',
         qr_using = ''dense'',
         qr_limit = limit,
         qr_query_filter = None,
         qr_with_payload = True\<rparr>)"

text \<open>The body of the \<^verbatim>\<open>try\<close> block of \<^verbatim>\<open>advanced_search\<close>.\<close>

definition advanced_search_try ::
  "service \<Rightarrow> pydict \<Rightarrow> pydict option \<Rightarrow> int \<Rightarrow> int \<Rightarrow> int \<Rightarrow> py_exception + pydict list" where
  "advanced_search_try self query_embeddings filters limit prefetch_limit rerank_limit =
     (case query_points (client self)
             (funnel_request self query_embeddings filters limit prefetch_limit rerank_limit) of
        Inl e \<Rightarrow> Inl e
      | Inr points \<Rightarrow> Inr (format_results points))"

text \<open>
  \<^verbatim>\<open>query_embeddings.get('dense') or query_embeddings.get('rerank') or
  list(query_embeddings.values())[0]\<close>: the first operand that is true, else the last one,
  which raises \<open>IndexError\<close> on an empty dictionary.
\<close>

definition fallback_query_vector :: "pydict \<Rightarrow> py_exception + pyval" where
  "fallback_query_vector query_embeddings =
     (if truthy (dict_get query_embeddings ''dense'') then
        Inr (dict_get query_embeddings ''dense'')
      else if truthy (dict_get query_embeddings ''rerank'') then
        Inr (dict_get query_embeddings ''rerank'')
      else (case query_embeddings of
              [] \<Rightarrow> Inl IndexError
            | kv # _ \<Rightarrow> Inr (snd kv)))"

definition fallback_request ::
  "service \<Rightarrow> settings \<Rightarrow> pyval \<Rightarrow> pydict option \<Rightarrow> int \<Rightarrow> search_request" where
  "fallback_request self st query_vector filters limit =
     \<lparr>sr_collection_name = collection_name self,
      sr_query_vector = query_vector,
      sr_query_filter = compile_filter filters,
      sr_limit = limit,
      sr_score_threshold = similarity_threshold st,
      sr_with_payload = True\<rparr>"

definition fallback_search_try ::
  "service \<Rightarrow> settings \<Rightarrow> pydict \<Rightarrow> pydict option \<Rightarrow> int \<Rightarrow> py_exception + pydict list" where
  "fallback_search_try self st query_embeddings filters limit =
     (case fallback_query_vector query_embeddings of
        Inl e \<Rightarrow> Inl e
      | Inr query_vector \<Rightarrow>
          (case search (client self) (fallback_request self st query_vector filters limit) of
             Inl e \<Rightarrow> Inl e
           | Inr search_result \<Rightarrow> Inr (format_results search_result)))"

text \<open>\<^verbatim>\<open>except Exception as e: ... return []\<close>.\<close>

definition fallback_search ::
  "service \<Rightarrow> settings \<Rightarrow> pydict \<Rightarrow> pydict option \<Rightarrow> int \<Rightarrow> py_exception + pydict list" where
  "fallback_search self st query_embeddings filters limit =
     (case fallback_search_try self st query_embeddings filters limit of
        Inl e \<Rightarrow> Inr []
      | Inr formatted_results \<Rightarrow> Inr formatted_results)"

text \<open>\<^verbatim>\<open>except Exception as e: ... return await self._fallback_search(...)\<close>.\<close>

definition advanced_search ::
  "service \<Rightarrow> settings \<Rightarrow> pydict \<Rightarrow> pydict option \<Rightarrow> int \<Rightarrow> int \<Rightarrow> int
     \<Rightarrow> py_exception + pydict list" where
  "advanced_search self st query_embeddings filters limit prefetch_limit rerank_limit =
     (case advanced_search_try self query_embeddings filters limit prefetch_limit rerank_limit of
        Inl e \<Rightarrow> fallback_search self st query_embeddings filters limit
      | Inr formatted_results \<Rightarrow> Inr formatted_results)"

text \<open>The stages of a request, innermost (first executed) stage first.\<close>

datatype stage = Stage (st_query: pyval) (st_using: string) (st_filter: "qdrant_filter option")

fun prefetch_stages :: "prefetch \<Rightarrow> stage list" where
  "prefetch_stages (Prefetch None q u l f) = [Stage q u f]"
| "prefetch_stages (Prefetch (Some p) q u l f) = prefetch_stages p @ [Stage q u f]"


section \<open>Point lookup and collection information\<close>

text \<open>
  \<^verbatim>\<open>get_case_by_id\<close>: the payload of the first retrieved record, \<open>None\<close> when nothing
  is retrieved, and \<open>None\<close> again when the retrieval raises.
\<close>

definition get_case_by_id :: "service \<Rightarrow> string \<Rightarrow> py_exception + pydict option" where
  "get_case_by_id self case_id =
     (case retrieve (client self) (collection_name self) [case_id] of
        Inl e \<Rightarrow> Inr None
      | Inr result \<Rightarrow>
          (case result of
             [] \<Rightarrow> Inr None
           | r # _ \<Rightarrow> Inr (Some r)))"

definition vector_configs :: pydict where
  "vector_configs =
     [(''dense'', PInt 384), (''rerank'', PInt 768), (''colbert'', PInt 384), (''byte'', PInt 384)]"

definition get_collection_info :: "service \<Rightarrow> py_exception + pydict" where
  "get_collection_info self =
     (case get_collection (client self) (collection_name self) of
        Inl e \<Rightarrow> Inr [(''status'', PStr ''error''), (''error'', PStr (str_exception e))]
      | Inr info \<Rightarrow>
          Inr [(''status'', PStr (ci_status info)),
               (''points_count'', PInt (ci_points_count info)),
               (''vectors_count'', PInt (ci_vectors_count info)),
               (''config'', PDict [(''vector_configs'', PDict vector_configs),
                                  (''distance'', PStr ''COSINE'')])])"

section \<open>The health endpoint: \<^verbatim>\<open>health_check\<close>\<close>

record 'time health_response =
  hr_status :: string
  hr_timestamp :: 'time
  hr_version :: string
  hr_qdrant_status :: string

definition health_check :: "service \<Rightarrow> settings \<Rightarrow> 'time \<Rightarrow> 'time health_response" where
  "health_check self st now =
     (case get_collection_info self of
        Inr qdrant_info \<Rightarrow>
          (let qdrant_status =
                 (if dict_get qdrant_info ''status'' = PStr ''green''
                  then ''healthy'' else ''unhealthy'')
           in \<lparr>hr_status = ''healthy'', hr_timestamp = now,
               hr_version = app_version st, hr_qdrant_status = qdrant_status\<rparr>)
      | Inl e \<Rightarrow>
          \<lparr>hr_status = ''unhealthy'', hr_timestamp = now,
           hr_version = app_version st, hr_qdrant_status = ''error''\<rparr>)"

section \<open>The embedding service: \<^verbatim>\<open>FastEmbedService\<close>\<close>

subsection \<open>Strings\<close>

text \<open>
  A character is one of the 256 code points below U+0100. The white space of
  \<^verbatim>\<open>str.split()\<close> and \<^verbatim>\<open>str.strip()\<close> in that range is tab, line feed, vertical
  tab, form feed, carriage return, the four separators 28 to 31, the space, the next-line
  control U+0085 and the no-break space U+00A0.
\<close>

definition is_space :: "char \<Rightarrow> bool" where
  "is_space c = ((of_char c :: nat) \<in> {9, 10, 11, 12, 13, 28, 29, 30, 31, 32, 133, 160})"

text \<open>\<^verbatim>\<open>text.split()\<close>: the maximal runs of characters that are not white space.\<close>

primrec split_loop :: "string \<Rightarrow> string \<Rightarrow> string list" where
  "split_loop cur [] = (if cur = [] then [] else [cur])"
| "split_loop cur (c # cs) =
     (if is_space c then (if cur = [] then split_loop [] cs else cur # split_loop [] cs)
      else split_loop (cur @ [c]) cs)"

definition split :: "string \<Rightarrow> string list" where
  "split text = split_loop [] text"

text \<open>\<^verbatim>\<open>sep.join(words)\<close> and \<^verbatim>\<open>s.strip()\<close>.\<close>

fun join :: "string \<Rightarrow> string list \<Rightarrow> string" where
  "join sep [] = []"
| "join sep [w] = w"
| "join sep (w # ws) = w @ sep @ join sep ws"

definition strip :: "string \<Rightarrow> string" where
  "strip s = rev (dropWhile is_space (rev (dropWhile is_space s)))"

subsection \<open>\<^verbatim>\<open>_clean_text\<close> and \<^verbatim>\<open>_chunk_text\<close>\<close>

definition clean_text :: "string \<Rightarrow> string" where
  "clean_text text =
     (if text = [] then []
      else (let text = join '' '' (split text);
                max_chars = 2000
            in if length text > max_chars then take max_chars text @ ''...'' else text))"

text \<open>
  The loop of \<^verbatim>\<open>_chunk_text\<close> over the words, with its three variables \<open>chunks\<close>,
  \<open>current_chunk\<close> and \<open>current_length\<close>; it returns the first two.
\<close>

fun chunk_loop ::
  "int \<Rightarrow> string list \<Rightarrow> string list \<Rightarrow> string list \<Rightarrow> int \<Rightarrow> string list \<times> string list" where
  "chunk_loop max_chunk_size [] chunks current_chunk current_length = (chunks, current_chunk)"
| "chunk_loop max_chunk_size (word # words) chunks current_chunk current_length =
     (if current_length + int (length word) + 1 > max_chunk_size \<and> current_chunk \<noteq> [] then
        chunk_loop max_chunk_size words (chunks @ [join '' '' current_chunk]) [word]
          (int (length word))
      else
        chunk_loop max_chunk_size words chunks (current_chunk @ [word])
          (current_length + int (length word) + 1))"

definition chunk_text :: "string \<Rightarrow> int \<Rightarrow> string list" where
  "chunk_text text max_chunk_size =
     (case chunk_loop max_chunk_size (split text) [] [] 0 of
        (chunks, current_chunk) \<Rightarrow>
          (if current_chunk \<noteq> [] then chunks @ [join '' '' current_chunk] else chunks))"

subsection \<open>\<^verbatim>\<open>get_colbert_embeddings\<close>\<close>

text \<open>
  The embedding model is outside the repository: \<open>colbert_model\<close> maps one text to its vector
  or to the exception the model raises. The loop embeds the chunks in order and the first
  exception leaves it (the handler logs and re-raises).
\<close>

fun embed_chunks ::
  "(string \<Rightarrow> py_exception + real list) \<Rightarrow> string list \<Rightarrow> real list list
     \<Rightarrow> py_exception + real list list" where
  "embed_chunks colbert_model [] multi_vectors = Inr multi_vectors"
| "embed_chunks colbert_model (chunk # chunks) multi_vectors =
     (if strip chunk \<noteq> [] then
        (case colbert_model chunk of
           Inl e \<Rightarrow> Inl e
         | Inr v \<Rightarrow> embed_chunks colbert_model chunks (multi_vectors @ [v]))
      else embed_chunks colbert_model chunks multi_vectors)"

definition get_colbert_embeddings ::
  "(string \<Rightarrow> py_exception + real list) \<Rightarrow> string \<Rightarrow> py_exception + real list list" where
  "get_colbert_embeddings colbert_model text =
     (let cleaned_text = clean_text text;
          chunks = chunk_text cleaned_text 200
      in case embed_chunks colbert_model (take 8 chunks) [] of
           Inl e \<Rightarrow> Inl e
         | Inr multi_vectors \<Rightarrow>
             (if multi_vectors = [] then
                (case colbert_model cleaned_text of
                   Inl e \<Rightarrow> Inl e
                 | Inr v \<Rightarrow> Inr [v])
              else Inr multi_vectors))"

subsection \<open>\<^verbatim>\<open>get_byte_vector\<close>\<close>

text \<open>
  The array arithmetic of the quantisation, over the reals, with the two outcomes of a
  floating-point division that are not numbers kept apart from the numbers: a division by
  zero raises nothing in an array operation, it yields an infinity, or not-a-number for
  \<open>0 / 0\<close>.
\<close>

datatype npfloat = Fin real | PosInf | NegInf | NaN

definition np_div :: "real \<Rightarrow> real \<Rightarrow> npfloat" where
  "np_div a b =
     (if b \<noteq> 0 then Fin (a / b)
      else if a = 0 then NaN
      else if a > 0 then PosInf else NegInf)"

fun np_mul :: "npfloat \<Rightarrow> real \<Rightarrow> npfloat" where
  "np_mul (Fin a) c = Fin (a * c)"
| "np_mul PosInf c = (if c > 0 then PosInf else if c < 0 then NegInf else NaN)"
| "np_mul NegInf c = (if c > 0 then NegInf else if c < 0 then PosInf else NaN)"
| "np_mul NaN c = NaN"

text \<open>
  \<^verbatim>\<open>astype(np.uint8)\<close> truncates a number towards zero. The cast of a value that has no
  truncation in 0 to 255 (not-a-number, an infinity, a number out of range) is not defined.
\<close>

datatype uint8_cast = Byte nat | InvalidCast

fun astype_uint8 :: "npfloat \<Rightarrow> uint8_cast" where
  "astype_uint8 (Fin x) =
     (if - 1 < x \<and> x < 256 then Byte (nat (if x < 0 then \<lceil>x\<rceil> else \<lfloor>x\<rfloor>)) else InvalidCast)"
| "astype_uint8 PosInf = InvalidCast"
| "astype_uint8 NegInf = InvalidCast"
| "astype_uint8 NaN = InvalidCast"

text \<open>\<^verbatim>\<open>dense_array.min()\<close> and \<^verbatim>\<open>dense_array.max()\<close>: \<open>ValueError\<close> on an empty array.\<close>

fun array_min :: "real list \<Rightarrow> py_exception + real" where
  "array_min [] = Inl ValueError"
| "array_min (x # xs) = Inr (fold min xs x)"

fun array_max :: "real list \<Rightarrow> py_exception + real" where
  "array_max [] = Inl ValueError"
| "array_max (x # xs) = Inr (fold max xs x)"

definition get_dense_embedding ::
  "(string \<Rightarrow> py_exception + real list) \<Rightarrow> string \<Rightarrow> py_exception + real list" where
  "get_dense_embedding dense_model text = dense_model (clean_text text)"

definition quantize :: "real list \<Rightarrow> py_exception + uint8_cast list" where
  "quantize dense_array =
     (case array_min dense_array of
        Inl e \<Rightarrow> Inl e
      | Inr lo \<Rightarrow>
          (case array_max dense_array of
             Inl e \<Rightarrow> Inl e
           | Inr hi \<Rightarrow>
               Inr (map (\<lambda>x. astype_uint8 (np_mul (np_div (x - lo) (hi - lo)) 255))
                        dense_array)))"

definition get_byte_vector ::
  "(string \<Rightarrow> py_exception + real list) \<Rightarrow> string \<Rightarrow> py_exception + uint8_cast list" where
  "get_byte_vector dense_model text =
     (case get_dense_embedding dense_model text of
        Inl e \<Rightarrow> Inl e
      | Inr dense_embedding \<Rightarrow> quantize dense_embedding)"

section \<open>The orchestrator's conversion of results\<close>

text \<open>The result schema \<^verbatim>\<open>LegalCase\<close> of \<^verbatim>\<open>schemas.py\<close>.\<close>

record legal_case =
  lc_id :: string
  lc_case_name :: string
  lc_citation :: "string option"
  lc_court :: "string option"
  lc_jurisdiction :: "string option"
  lc_date_filed :: "string option"
  lc_case_type :: "string option"
  lc_summary :: "string option"
  lc_full_text :: "string option"
  lc_url :: "string option"
  lc_score :: "real option"
  lc_industry :: "string option"
  lc_company_size :: "string option"
  lc_contract_status :: "string option"
  lc_estimated_value :: "string option"
  lc_complexity_level :: "string option"
  lc_risk_level :: "string option"
  lc_renewal_terms :: "string option"
  lc_contract_start_date :: "string option"
  lc_contract_end_date :: "string option"
  lc_court_level :: "string option"

text \<open>
  \<^verbatim>\<open>SearchOrchestrator._convert_to_legal_case\<close> is declared to return a
  \<^verbatim>\<open>LegalCase\<close>; its body is two comments and \<^verbatim>\<open>pass\<close>, so it returns \<open>None\<close>
  for every result. \<^verbatim>\<open>_convert_to_legal_cases\<close> is the list comprehension over it.
\<close>

definition convert_to_legal_case :: "pydict \<Rightarrow> legal_case option" where
  "convert_to_legal_case result = None"

definition convert_to_legal_cases :: "pydict list \<Rightarrow> legal_case option list" where
  "convert_to_legal_cases results = map convert_to_legal_case results"

section \<open>Sample inputs\<close>

text \<open>Three hits in the order the index returns them, the second with a stale score field.\<close>

definition sample_points :: "scored_point list" where
  "sample_points =
     [\<lparr>sp_id = PStr ''c1'',
       sp_payload = [(''case_name'', PStr ''A''), (''jurisdiction'', PStr ''California'')],
       sp_score = 9 / 10\<rparr>,
      \<lparr>sp_id = PStr ''c2'',
       sp_payload = [(''case_name'', PStr ''B''), (''score'', PInt 7)],
       sp_score = 1 / 2\<rparr>,
      \<lparr>sp_id = PStr ''c3'',
       sp_payload = [(''case_name'', PStr ''C'')],
       sp_score = 1 / 10\<rparr>]"

text \<open>An index that cannot be reached: every call raises the connectivity failure.\<close>

definition unreachable_client :: qdrant where
  "unreachable_client =
     \<lparr>query_points = (\<lambda>r. Inl ConnectionError),
      search = (\<lambda>r. Inl ConnectionError),
      retrieve = (\<lambda>c ids. Inl ConnectionError),
      get_collection = (\<lambda>c. Inl ConnectionError)\<rparr>"

text \<open>
  An index that rejects the multi-stage query, answers the single-stage search with the
  sample hits at or above the requested threshold, and holds no document.
\<close>

definition degraded_client :: qdrant where
  "degraded_client =
     \<lparr>query_points = (\<lambda>r. Inl UnexpectedResponse),
      search = (\<lambda>r. Inr (filter (\<lambda>h. sr_score_threshold r \<le> sp_score h) sample_points)),
      retrieve = (\<lambda>c ids. Inr []),
      get_collection =
        (\<lambda>c. Inr \<lparr>ci_status = ''green'', ci_points_count = 3, ci_vectors_count = 3\<rparr>)\<rparr>"

definition unreachable_service :: service where
  "unreachable_service =
     \<lparr>client = unreachable_client, collection_name = ''cuad_contracts_v2''\<rparr>"

definition degraded_service :: service where
  "degraded_service =
     \<lparr>client = degraded_client, collection_name = ''cuad_contracts_v2''\<rparr>"

text \<open>A query bundle that holds the two coarse representations only.\<close>

definition coarse_bundle :: pydict where
  "coarse_bundle =
     [(''dense'', PList [PFloat (1 / 2), PFloat (1 / 4)]),
      (''byte'', PList [PInt 255, PInt 0])]"

definition sample_filters :: pydict where
  "sample_filters =
     [(''jurisdiction'', PList [PStr ''California'']),
      (''industry'', PList [PStr ''Technology'', PStr ''Finance'']),
      (''practice_area'', PList [PStr ''Licensing'']),
      (''date_to'', PStr ''2020-12-31'')]"

text \<open>A filter specification that gives a recognised field a bare string, not a list.\<close>

definition scalar_filters :: pydict where
  "scalar_filters = [(''jurisdiction'', PStr ''California'')]"

text \<open>A stand-in embedding model: one component, the length of the text.\<close>

definition length_model :: "string \<Rightarrow> py_exception + real list" where
  "length_model text = Inr [real (length text)]"

text \<open>A stand-in embedding model whose dense vector has all components equal.\<close>

definition constant_model :: "string \<Rightarrow> py_exception + real list" where
  "constant_model text = Inr [1 / 2, 1 / 2, 1 / 2]"

section \<open>Point lookup\<close>

text \<open>
  C10. For every document id, when the retrieval call of the index raises, whatever the
  exception, \<^verbatim>\<open>get_case_by_id\<close> returns \<open>None\<close> instead of raising: the same
  result it gives for an index that answers with no record, so the caller cannot tell a
  failing index from a missing document.
\<close>

theorem get_case_by_id_error_is_absent:
  assumes "retrieve (client self) (collection_name self) [case_id] = Inl e"
      and "retrieve (client self') (collection_name self') [case_id] = Inr []"
  shows "get_case_by_id self case_id = Inr None \<and>
         get_case_by_id self case_id = get_case_by_id self' case_id"
  using assms by (simp add: get_case_by_id_def)

theorem get_case_by_id_error_is_absent_witness:
  "get_case_by_id unreachable_service ''case_1'' = Inr None \<and>
   get_case_by_id unreachable_service ''case_1'' = get_case_by_id degraded_service ''case_1''"
proof -
  have a: "retrieve (client unreachable_service) (collection_name unreachable_service)
             [''case_1''] = Inl ConnectionError"
    by (simp add: unreachable_service_def unreachable_client_def)
  have b: "retrieve (client degraded_service) (collection_name degraded_service)
             [''case_1''] = Inr []"
    by (simp add: degraded_service_def degraded_client_def)
  show ?thesis
    by (rule get_case_by_id_error_is_absent [OF a b])
qed

section \<open>Health of the index\<close>

lemma get_collection_info_swallows:
  "get_collection (client self) (collection_name self) = Inl e \<Longrightarrow>
   get_collection_info self =
     Inr [(''status'', PStr ''error''), (''error'', PStr (str_exception e))]"
  by (simp add: get_collection_info_def)

lemma health_check_when_get_collection_raises:
  "get_collection (client self) (collection_name self) = Inl e \<Longrightarrow>
   health_check self st now =
     \<lparr>hr_status = ''healthy'', hr_timestamp = now,
      hr_version = app_version st, hr_qdrant_status = ''unhealthy''\<rparr>"
  by (simp add: health_check_def get_collection_info_swallows dict_get_def dict_get_default_def)

text \<open>
  C9. The claim is that an unreachable index makes the health endpoint report the service
  as unhealthy. Evaluated on an index whose collection-info call raises the connectivity
  failure: \<^verbatim>\<open>get_collection_info\<close> turns the exception into a dictionary with status
  \<^verbatim>\<open>error\<close>, so the handler of \<^verbatim>\<open>health_check\<close> is never entered, and the response
  has the overall status \<^verbatim>\<open>healthy\<close> beside the index status \<^verbatim>\<open>unhealthy\<close>.
\<close>

theorem health_check_unreachable_index:
  "get_collection (client unreachable_service) (collection_name unreachable_service)
     = Inl ConnectionError \<and>
   hr_status (health_check unreachable_service default_settings (0::nat)) = ''healthy'' \<and>
   hr_qdrant_status (health_check unreachable_service default_settings (0::nat)) = ''unhealthy''"
  by (simp add: health_check_def get_collection_info_def dict_get_def dict_get_default_def
                unreachable_service_def unreachable_client_def)

section \<open>Failure of the fallback search\<close>

text \<open>
  C3, as stated: a failing fallback gives an empty list, except that a connectivity
  failure propagates. On the unreachable index the fallback search raises the
  connectivity failure and the funnel still returns the empty list.
\<close>

theorem fallback_failure_counterexample:
  "fallback_search_try unreachable_service default_settings coarse_bundle None 10
     = Inl ConnectionError \<and>
   advanced_search unreachable_service default_settings coarse_bundle None 10 1000 100
     = Inr []"
  by (simp add: advanced_search_def advanced_search_try_def fallback_search_def
                fallback_search_try_def fallback_query_vector_def coarse_bundle_def
                dict_get_def dict_get_default_def
                unreachable_service_def unreachable_client_def)

text \<open>
  C3, amended. For every query bundle and filter, if the multi-stage call raises and the
  single-stage fallback raises too, whatever the two exceptions (a connectivity failure
  included), the funnel returns the empty result list and raises nothing.
\<close>

theorem fallback_failure_returns_empty:
  assumes "advanced_search_try self query_embeddings filters limit prefetch_limit rerank_limit
             = Inl e"
      and "fallback_search_try self st query_embeddings filters limit = Inl e'"
  shows "advanced_search self st query_embeddings filters limit prefetch_limit rerank_limit
           = Inr []"
  using assms by (simp add: advanced_search_def fallback_search_def)

theorem fallback_failure_returns_empty_witness:
  "advanced_search unreachable_service default_settings coarse_bundle None 10 1000 100 = Inr []"
proof -
  have a: "advanced_search_try unreachable_service coarse_bundle None 10 1000 100
             = Inl ConnectionError"
    by (simp add: advanced_search_try_def unreachable_service_def unreachable_client_def)
  have b: "fallback_search_try unreachable_service default_settings coarse_bundle None 10
             = Inl ConnectionError"
    by (simp add: fallback_search_try_def fallback_query_vector_def coarse_bundle_def
                  dict_get_def dict_get_default_def
                  unreachable_service_def unreachable_client_def)
  show ?thesis
    by (rule fallback_failure_returns_empty [OF a b])
qed

section \<open>The filter compiler\<close>

lemma build_filter_loop_concat:
  "build_filter_loop filters fs conditions =
     conditions @ concat (map (field_conditions filters) fs)"
  by (induction fs arbitrary: conditions) simp_all

lemma build_filter_eq:
  "build_filter filters =
     (if emitted_conditions filters = [] then None
      else Some (Filter (Some (emitted_conditions filters)) None None))"
  by (simp add: build_filter_def build_filter_loop_concat emitted_conditions_def Let_def)

lemma dict_get_falsy:
  assumes "\<forall>v \<in> snd ` set d. \<not> truthy v"
  shows "\<not> truthy (dict_get d k)"
proof (cases "map_of d k")
  case None
  then show ?thesis by (simp add: dict_get_def dict_get_default_def)
next
  case (Some v)
  then have "(k, v) \<in> set d" by (rule map_of_SomeD)
  then have "v \<in> snd ` set d" by force
  with assms have "\<not> truthy v" by blast
  with Some show ?thesis by (simp add: dict_get_def dict_get_default_def)
qed

lemma build_filter_all_falsy:
  assumes "\<forall>v \<in> snd ` set d. \<not> truthy v"
  shows "build_filter d = None"
proof -
  have f: "\<And>field. field_conditions d field = []"
    using dict_get_falsy [OF assms] by (simp add: field_conditions_def)
  have g: "date_conditions d = []"
    using dict_get_falsy [OF assms] by (simp add: date_conditions_def)
  show ?thesis by (simp add: build_filter_eq emitted_conditions_def f g)
qed

lemma compile_filter_never_trivial:
  "compile_filter filters \<noteq> Some (Filter (Some []) None None)"
  by (auto simp: compile_filter_def build_filter_eq split: option.splits if_splits)

text \<open>
  C5. For every filter specification that is absent, that is the empty dictionary, or all
  of whose entries are empty (\<open>None\<close>, an empty list, an empty string: any value
  Python takes for false), the compiled filter is \<open>None\<close>: no filter object at all. (By
  \<open>compile_filter_never_trivial\<close> no specification whatever compiles to a filter with an
  empty list of conditions.)
\<close>

theorem compile_filter_null:
  assumes "filters = None \<or> filters = Some [] \<or>
           (\<exists>d. filters = Some d \<and> (\<forall>v \<in> snd ` set d. \<not> truthy v))"
  shows "compile_filter filters = None"
  using assms by (auto simp: compile_filter_def build_filter_all_falsy)

theorem compile_filter_null_witness:
  "compile_filter None = None \<and> compile_filter (Some []) = None \<and>
   compile_filter (Some [(''jurisdiction'', PList []), (''industry'', PNone),
                         (''date_from'', PStr '''')]) = None"
proof -
  have a: "compile_filter None = None"
    using compile_filter_null [of None] by simp
  have b: "compile_filter (Some []) = None"
    using compile_filter_null [of "Some []"] by simp
  have c: "compile_filter (Some [(''jurisdiction'', PList []), (''industry'', PNone),
                                 (''date_from'', PStr '''')]) = None"
    using compile_filter_null [of "Some [(''jurisdiction'', PList []), (''industry'', PNone),
                                         (''date_from'', PStr '''')]"] by simp
  show ?thesis using a b c by simp
qed

lemma field_conditions_cong:
  "dict_get g k = dict_get f k \<Longrightarrow> field_conditions g k = field_conditions f k"
  by (simp add: field_conditions_def)

lemma date_conditions_cong:
  "dict_get g ''date_from'' = dict_get f ''date_from'' \<Longrightarrow>
   dict_get g ''date_to'' = dict_get f ''date_to'' \<Longrightarrow>
   date_conditions g = date_conditions f"
  by (simp add: date_conditions_def)

lemma field_conditions_cases:
  "field_conditions filters field =
     (case dict_get filters field of
        PList [v] \<Rightarrow> [FieldCondition field (Some (MatchValue v)) None]
      | PList (v # w # vs) \<Rightarrow> [FieldCondition field (Some (MatchAny (v # w # vs))) None]
      | _ \<Rightarrow> [])"
  by (simp add: field_conditions_def split: pyval.splits list.splits)

lemma emitted_conditions_explicit:
  "emitted_conditions filters =
     field_conditions filters ''jurisdiction'' @ field_conditions filters ''court_level'' @
     field_conditions filters ''case_type'' @ field_conditions filters ''industry'' @
     field_conditions filters ''company_size'' @ field_conditions filters ''contract_status'' @
     field_conditions filters ''complexity_level'' @ field_conditions filters ''risk_level'' @
     field_conditions filters ''renewal_terms'' @ date_conditions filters"
  by (simp add: emitted_conditions_def filterable_fields_def)

text \<open>
  C4, as stated: every recognised categorical field that is present and non-empty gives a
  condition, an exact match when it carries a single value. On the specification that
  carries the single value \<^verbatim>\<open>California\<close> for \<^verbatim>\<open>jurisdiction\<close> as a bare string, the
  field is recognised and its entry is not empty, and the compiler emits no condition at
  all: the test \<^verbatim>\<open>isinstance(field_values, list)\<close> lets lists through only.
\<close>

theorem build_filter_scalar_counterexample:
  "''jurisdiction'' \<in> set filterable_fields \<and>
   truthy (dict_get scalar_filters ''jurisdiction'') \<and>
   build_filter scalar_filters = None \<and>
   compile_filter (Some scalar_filters) = None"
  by (simp add: scalar_filters_def filterable_fields_def dict_get_def dict_get_default_def
                compile_filter_def build_filter_eq emitted_conditions_explicit
                field_conditions_def date_conditions_def)

text \<open>
  C4, amended. For every filter specification, the conditions the compiler emits are, in
  this order: for each of the nine recognised categorical fields whose entry is a list,
  an exact-match condition on the value when the list has one value and an any-of
  condition on the list when it has several, and nothing when the entry is absent, empty
  or not a list; then, when \<^verbatim>\<open>date_from\<close> or \<^verbatim>\<open>date_to\<close> is present and not empty,
  one range condition on \<^verbatim>\<open>date_filed\<close> with the bounds that are present. The result is
  \<open>None\<close> when nothing is emitted and otherwise the filter with exactly these conditions
  in its \<open>must\<close> clause and no other clause, so that a document is accepted exactly when
  every emitted condition holds on it. A specification that agrees with this one on the
  nine fields and the two date bounds compiles to the same filter, whatever other fields
  either has.
\<close>

theorem build_filter_conditions:
  "let field_block = (\<lambda>field.
         case dict_get filters field of
           PList [v] \<Rightarrow> [FieldCondition field (Some (MatchValue v)) None]
         | PList (v # w # vs) \<Rightarrow> [FieldCondition field (Some (MatchAny (v # w # vs))) None]
         | _ \<Rightarrow> []);
       date_from = dict_get filters ''date_from'';
       date_to = dict_get filters ''date_to'';
       date_block =
         (if truthy date_from \<or> truthy date_to then
            [FieldCondition ''date_filed'' None
               (Some (Range (if truthy date_from then Some date_from else None)
                            (if truthy date_to then Some date_to else None)))]
          else []);
       cs = field_block ''jurisdiction'' @ field_block ''court_level'' @
            field_block ''case_type'' @ field_block ''industry'' @
            field_block ''company_size'' @ field_block ''contract_status'' @
            field_block ''complexity_level'' @ field_block ''risk_level'' @
            field_block ''renewal_terms'' @ date_block
   in build_filter filters = (if cs = [] then None else Some (Filter (Some cs) None None)) \<and>
      (\<forall>g. (\<forall>k \<in> {''jurisdiction'', ''court_level'', ''case_type'', ''industry'',
                    ''company_size'', ''contract_status'', ''complexity_level'',
                    ''risk_level'', ''renewal_terms'', ''date_from'', ''date_to''}.
               dict_get g k = dict_get filters k) \<longrightarrow>
           build_filter g = build_filter filters) \<and>
      (\<forall>f holds (doc :: 'doc). build_filter filters = Some f \<longrightarrow>
         filter_accepts holds f doc = (\<forall>c \<in> set cs. holds c doc))"
proof -
  let ?cs = "emitted_conditions filters"
  have b: "build_filter filters = (if ?cs = [] then None else Some (Filter (Some ?cs) None None))"
    by (rule build_filter_eq)
  have g: "\<forall>g. (\<forall>k \<in> {''jurisdiction'', ''court_level'', ''case_type'', ''industry'',
                    ''company_size'', ''contract_status'', ''complexity_level'',
                    ''risk_level'', ''renewal_terms'', ''date_from'', ''date_to''}.
               dict_get g k = dict_get filters k) \<longrightarrow>
           build_filter g = build_filter filters"
  proof (intro allI impI)
    fix g
    assume a: "\<forall>k \<in> {''jurisdiction'', ''court_level'', ''case_type'', ''industry'',
                    ''company_size'', ''contract_status'', ''complexity_level'',
                    ''risk_level'', ''renewal_terms'', ''date_from'', ''date_to''}.
               dict_get g k = dict_get filters k"
    have f: "\<And>k. k \<in> set filterable_fields \<Longrightarrow> field_conditions g k = field_conditions filters k"
      using a by (intro field_conditions_cong) (auto simp: filterable_fields_def)
    have "map (field_conditions g) filterable_fields
            = map (field_conditions filters) filterable_fields"
      using f by (intro map_cong refl)
    moreover have "date_conditions g = date_conditions filters"
      using a by (intro date_conditions_cong) simp_all
    ultimately have "emitted_conditions g = emitted_conditions filters"
      by (simp only: emitted_conditions_def)
    then show "build_filter g = build_filter filters"
      by (simp only: build_filter_eq)
  qed
  have h: "\<forall>f holds (doc :: 'doc). build_filter filters = Some f \<longrightarrow>
         filter_accepts holds f doc = (\<forall>c \<in> set ?cs. holds c doc)"
  proof (intro allI impI)
    fix f and holds :: "field_condition \<Rightarrow> 'doc \<Rightarrow> bool" and doc
    assume "build_filter filters = Some f"
    then have "f = Filter (Some ?cs) None None"
      by (simp add: build_filter_eq split: if_splits)
    then show "filter_accepts holds f doc = (\<forall>c \<in> set ?cs. holds c doc)"
      by (simp add: filter_accepts_def list_all_iff)
  qed
  note x = emitted_conditions_explicit field_conditions_cases date_conditions_def
  show ?thesis
    unfolding Let_def
    apply (intro conjI)
      apply (rule b [unfolded x])
     apply (rule g)
    apply (rule h [unfolded x])
    done
qed

theorem build_filter_conditions_witness:
  "build_filter sample_filters =
     Some (Filter (Some
       [FieldCondition ''jurisdiction'' (Some (MatchValue (PStr ''California''))) None,
        FieldCondition ''industry''
          (Some (MatchAny [PStr ''Technology'', PStr ''Finance''])) None,
        FieldCondition ''date_filed'' None
          (Some (Range None (Some (PStr ''2020-12-31''))))]) None None) \<and>
   build_filter [(''jurisdiction'', PList [PStr ''California'']),
                 (''industry'', PList [PStr ''Technology'', PStr ''Finance'']),
                 (''date_to'', PStr ''2020-12-31'')] = build_filter sample_filters \<and>
   filter_accepts (\<lambda>c doc. key c \<in> set doc)
     (Filter (Some
       [FieldCondition ''jurisdiction'' (Some (MatchValue (PStr ''California''))) None,
        FieldCondition ''industry''
          (Some (MatchAny [PStr ''Technology'', PStr ''Finance''])) None,
        FieldCondition ''date_filed'' None
          (Some (Range None (Some (PStr ''2020-12-31''))))]) None None)
     [''jurisdiction'', ''industry'', ''date_filed''] \<and>
   \<not> filter_accepts (\<lambda>c doc. key c \<in> set doc)
     (Filter (Some
       [FieldCondition ''jurisdiction'' (Some (MatchValue (PStr ''California''))) None,
        FieldCondition ''industry''
          (Some (MatchAny [PStr ''Technology'', PStr ''Finance''])) None,
        FieldCondition ''date_filed'' None
          (Some (Range None (Some (PStr ''2020-12-31''))))]) None None)
     [''jurisdiction'', ''industry'']"
proof -
  note t = build_filter_conditions [of sample_filters, unfolded Let_def]
  have a: "build_filter sample_filters =
     Some (Filter (Some
       [FieldCondition ''jurisdiction'' (Some (MatchValue (PStr ''California''))) None,
        FieldCondition ''industry''
          (Some (MatchAny [PStr ''Technology'', PStr ''Finance''])) None,
        FieldCondition ''date_filed'' None
          (Some (Range None (Some (PStr ''2020-12-31''))))]) None None)"
    using t [THEN conjunct1]
    by (simp add: sample_filters_def dict_get_def dict_get_default_def)
  have c: "build_filter [(''jurisdiction'', PList [PStr ''California'']),
                 (''industry'', PList [PStr ''Technology'', PStr ''Finance'']),
                 (''date_to'', PStr ''2020-12-31'')] = build_filter sample_filters"
    by (rule t [THEN conjunct2, THEN conjunct1, rule_format])
       (auto simp: sample_filters_def dict_get_def dict_get_default_def)
  have d: "filter_accepts (\<lambda>c doc. key c \<in> set doc)
     (Filter (Some
       [FieldCondition ''jurisdiction'' (Some (MatchValue (PStr ''California''))) None,
        FieldCondition ''industry''
          (Some (MatchAny [PStr ''Technology'', PStr ''Finance''])) None,
        FieldCondition ''date_filed'' None
          (Some (Range None (Some (PStr ''2020-12-31''))))]) None None)
     [''jurisdiction'', ''industry'', ''date_filed'']"
    using t [THEN conjunct2, THEN conjunct2, rule_format, OF a,
             of "\<lambda>c doc. key c \<in> set doc" "[''jurisdiction'', ''industry'', ''date_filed'']"]
    by (simp add: sample_filters_def dict_get_def dict_get_default_def)
  have e: "\<not> filter_accepts (\<lambda>c doc. key c \<in> set doc)
     (Filter (Some
       [FieldCondition ''jurisdiction'' (Some (MatchValue (PStr ''California''))) None,
        FieldCondition ''industry''
          (Some (MatchAny [PStr ''Technology'', PStr ''Finance''])) None,
        FieldCondition ''date_filed'' None
          (Some (Range None (Some (PStr ''2020-12-31''))))]) None None)
     [''jurisdiction'', ''industry'']"
    using t [THEN conjunct2, THEN conjunct2, rule_format, OF a,
             of "\<lambda>c doc. key c \<in> set doc" "[''jurisdiction'', ''industry'']"]
    by (simp add: sample_filters_def dict_get_def dict_get_default_def)
  show ?thesis using a c d e by simp
qed

section \<open>Assembling results\<close>

lemma dict_get_dict_set_same: "dict_get (dict_set d k v) k = v"
  by (induction d k v rule: dict_set.induct) (simp_all add: dict_get_def dict_get_default_def)

lemma map_of_dict_set_other: "k' \<noteq> k \<Longrightarrow> map_of (dict_set d k v) k' = map_of d k'"
  by (induction d k v rule: dict_set.induct) simp_all

lemma format_results_map:
  "format_results points =
     map (\<lambda>result. dict_set (sp_payload result) ''score'' (PFloat (sp_score result))) points"
  by (induction points) simp_all

lemma advanced_search_formats:
  "query_points (client self)
     (funnel_request self query_embeddings filters limit prefetch_limit rerank_limit) = Inr points \<Longrightarrow>
   advanced_search self st query_embeddings filters limit prefetch_limit rerank_limit
     = Inr (format_results points)"
  by (simp add: advanced_search_def advanced_search_try_def)

lemma convert_to_legal_cases_length:
  "length (convert_to_legal_cases results) = length results"
  by (simp add: convert_to_legal_cases_def)

text \<open>
  The formatting loop of the two searches, on every list of raw hits: one result per hit,
  in the order of the hits; the result at each position is the payload of the hit at that
  position, with the hit's score stored under \<^verbatim>\<open>score\<close> and every other field as it
  is in the payload.
\<close>

lemma format_results_one_to_one:
  "length (format_results points) = length points \<and>
   (\<forall>i < length points.
      dict_get (format_results points ! i) ''score'' = PFloat (sp_score (points ! i)) \<and>
      (\<forall>k. k \<noteq> ''score'' \<longrightarrow>
         map_of (format_results points ! i) k = map_of (sp_payload (points ! i)) k))"
  by (simp add: format_results_map dict_get_dict_set_same map_of_dict_set_other)

lemma format_results_sample:
  "format_results sample_points =
     [ [(''case_name'', PStr ''A''), (''jurisdiction'', PStr ''California''),
        (''score'', PFloat (9 / 10))],
       [(''case_name'', PStr ''B''), (''score'', PFloat (1 / 2))],
       [(''case_name'', PStr ''C''), (''score'', PFloat (1 / 10))] ]"
  by (simp add: sample_points_def)

text \<open>
  C8. The claim is that the assembled list has one search result per hit, with the hit's
  score and every metadata field of its payload. Evaluated on the three sample hits: the
  formatting loop gives the three payloads with their scores, in order, and the
  orchestrator's conversion of them to the result schema gives three times \<open>None\<close>:
  one entry per hit, in order, and neither a score nor a metadata field in any of them.
\<close>

theorem convert_to_legal_cases_sample:
  "map (\<lambda>r. dict_get r ''case_name'') (format_results sample_points)
     = [PStr ''A'', PStr ''B'', PStr ''C''] \<and>
   map (\<lambda>r. dict_get r ''score'') (format_results sample_points)
     = [PFloat (9 / 10), PFloat (1 / 2), PFloat (1 / 10)] \<and>
   convert_to_legal_cases (format_results sample_points) = [None, None, None]"
  by (simp add: format_results_sample convert_to_legal_cases_def convert_to_legal_case_def
                dict_get_def dict_get_default_def)

section \<open>The chain of the funnel\<close>

lemma prefetch_stages_prefetch_stage:
  "prefetch_stages (prefetch_stage qe filters pl) =
     [Stage (dict_get_default qe ''byte'' (dict_get qe ''dense'')) ''byte'' (compile_filter filters)]"
  by (simp add: prefetch_stage_def)





section \<open>The single-stage fallback\<close>

lemma fallback_query_vector_present:
  assumes "query_embeddings \<noteq> []"
  shows "\<exists>v. fallback_query_vector query_embeddings = Inr v \<and>
             v \<in> snd ` set query_embeddings \<and>
             (truthy (dict_get query_embeddings ''dense'') \<longrightarrow>
                v = dict_get query_embeddings ''dense'')"
proof -
  have m: "\<And>k. truthy (dict_get query_embeddings k) \<Longrightarrow>
             dict_get query_embeddings k \<in> snd ` set query_embeddings"
  proof -
    fix k
    assume t: "truthy (dict_get query_embeddings k)"
    show "dict_get query_embeddings k \<in> snd ` set query_embeddings"
    proof (cases "map_of query_embeddings k")
      case None
      with t show ?thesis by (simp add: dict_get_def dict_get_default_def)
    next
      case (Some v)
      then have "(k, v) \<in> set query_embeddings" by (rule map_of_SomeD)
      then have "v \<in> snd ` set query_embeddings" by force
      with Some show ?thesis by (simp add: dict_get_def dict_get_default_def)
    qed
  qed
  obtain kv rest where c: "query_embeddings = kv # rest"
    using assms by (cases query_embeddings) auto
  show ?thesis
  proof (cases "truthy (dict_get query_embeddings ''dense'')")
    case True
    then show ?thesis using m by (simp add: fallback_query_vector_def)
  next
    case False
    show ?thesis
    proof (cases "truthy (dict_get query_embeddings ''rerank'')")
      case True
      with False show ?thesis using m by (simp add: fallback_query_vector_def)
    next
      case r: False
      have "fallback_query_vector query_embeddings = Inr (snd kv)"
        using False r c by (simp add: fallback_query_vector_def)
      moreover have "snd kv \<in> snd ` set query_embeddings"
        using c by simp
      ultimately show ?thesis using False by simp
    qed
  qed
qed

lemma format_results_scores:
  assumes "\<forall>h \<in> set hits. t \<le> sp_score h"
  shows "\<forall>r \<in> set (format_results hits). \<exists>x. dict_get r ''score'' = PFloat x \<and> t \<le> x"
  using assms by (induction hits) (auto simp: dict_get_dict_set_same)

text \<open>
  C2. For every non-empty query bundle, filter and result limit, if the multi-stage search
  raises, whatever the exception, the funnel answers with the single-stage search: its
  query vector is a representation of the bundle, the dense one when the bundle has it
  (as a non-empty vector); it carries the same compiled filter, the original limit and
  the configured similarity threshold; and, the index leaving out the hits that score
  below the threshold it is given, every result has a score at or above the configured
  threshold.
\<close>

theorem fallback_single_stage:
  assumes fail: "advanced_search_try self query_embeddings filters limit prefetch_limit
                   rerank_limit = Inl e"
      and nonempty: "query_embeddings \<noteq> []"
      and honours: "\<forall>r hits. search (client self) r = Inr hits \<longrightarrow>
                      (\<forall>h \<in> set hits. sr_score_threshold r \<le> sp_score h)"
  shows "\<exists>query_vector.
           query_vector \<in> snd ` set query_embeddings \<and>
           (truthy (dict_get query_embeddings ''dense'') \<longrightarrow>
              query_vector = dict_get query_embeddings ''dense'') \<and>
           advanced_search self st query_embeddings filters limit prefetch_limit rerank_limit =
             (case search (client self)
                     \<lparr>sr_collection_name = collection_name self,
                      sr_query_vector = query_vector,
                      sr_query_filter = compile_filter filters,
                      sr_limit = limit,
                      sr_score_threshold = similarity_threshold st,
                      sr_with_payload = True\<rparr> of
                Inl e' \<Rightarrow> Inr []
              | Inr hits \<Rightarrow> Inr (format_results hits)) \<and>
           (\<forall>results.
              advanced_search self st query_embeddings filters limit prefetch_limit rerank_limit
                = Inr results \<longrightarrow>
              (\<forall>r \<in> set results. \<exists>x. dict_get r ''score'' = PFloat x \<and>
                                      similarity_threshold st \<le> x))"
proof -
  obtain v where v: "fallback_query_vector query_embeddings = Inr v"
      and vin: "v \<in> snd ` set query_embeddings"
      and vdense: "truthy (dict_get query_embeddings ''dense'') \<longrightarrow>
                     v = dict_get query_embeddings ''dense''"
    using fallback_query_vector_present [OF nonempty] by blast
  let ?req = "\<lparr>sr_collection_name = collection_name self, sr_query_vector = v,
               sr_query_filter = compile_filter filters, sr_limit = limit,
               sr_score_threshold = similarity_threshold st, sr_with_payload = True\<rparr>"
  have eq: "advanced_search self st query_embeddings filters limit prefetch_limit rerank_limit =
             (case search (client self) ?req of
                Inl e' \<Rightarrow> Inr [] | Inr hits \<Rightarrow> Inr (format_results hits))"
    using fail v
    by (simp add: advanced_search_def fallback_search_def fallback_search_try_def
                  fallback_request_def split: sum.splits)
  have thr: "\<forall>results.
              advanced_search self st query_embeddings filters limit prefetch_limit rerank_limit
                = Inr results \<longrightarrow>
              (\<forall>r \<in> set results. \<exists>x. dict_get r ''score'' = PFloat x \<and>
                                      similarity_threshold st \<le> x)"
  proof (intro allI impI)
    fix results
    assume a: "advanced_search self st query_embeddings filters limit prefetch_limit rerank_limit
                 = Inr results"
    show "\<forall>r \<in> set results. \<exists>x. dict_get r ''score'' = PFloat x \<and> similarity_threshold st \<le> x"
    proof (cases "search (client self) ?req")
      case (Inl e')
      with a eq show ?thesis by simp
    next
      case (Inr hits)
      with honours have "\<forall>h \<in> set hits. similarity_threshold st \<le> sp_score h"
        by fastforce
      then have "\<forall>r \<in> set (format_results hits).
                   \<exists>x. dict_get r ''score'' = PFloat x \<and> similarity_threshold st \<le> x"
        by (rule format_results_scores)
      with a eq Inr show ?thesis by simp
    qed
  qed
  show ?thesis using vin vdense eq thr by blast
qed

theorem fallback_single_stage_witness:
  "advanced_search degraded_service default_settings coarse_bundle (Some sample_filters)
     10 1000 100 =
   Inr [ [(''case_name'', PStr ''A''), (''jurisdiction'', PStr ''California''),
         (''score'', PFloat (9 / 10))],
        [(''case_name'', PStr ''B''), (''score'', PFloat (1 / 2))] ]"
proof -
  have a: "advanced_search_try degraded_service coarse_bundle (Some sample_filters) 10 1000 100
             = Inl UnexpectedResponse"
    by (simp add: advanced_search_try_def degraded_service_def degraded_client_def)
  have b: "coarse_bundle \<noteq> []"
    by (simp add: coarse_bundle_def)
  have c: "\<forall>r hits. search (client degraded_service) r = Inr hits \<longrightarrow>
             (\<forall>h \<in> set hits. sr_score_threshold r \<le> sp_score h)"
    by (auto simp: degraded_service_def degraded_client_def)
  obtain query_vector where
    d: "truthy (dict_get coarse_bundle ''dense'') \<longrightarrow>
          query_vector = dict_get coarse_bundle ''dense''" and
    e: "advanced_search degraded_service default_settings coarse_bundle (Some sample_filters)
          10 1000 100 =
        (case search (client degraded_service)
                \<lparr>sr_collection_name = collection_name degraded_service,
                 sr_query_vector = query_vector,
                 sr_query_filter = compile_filter (Some sample_filters),
                 sr_limit = 10,
                 sr_score_threshold = similarity_threshold default_settings,
                 sr_with_payload = True\<rparr> of
           Inl e' \<Rightarrow> Inr []
         | Inr hits \<Rightarrow> Inr (format_results hits))"
    using fallback_single_stage [OF a b c, where st = default_settings] by blast
  show ?thesis
    using e
    by (simp add: degraded_service_def degraded_client_def default_settings_def
                  sample_points_def)
qed

section \<open>The multi-vector representation\<close>

lemma embed_chunks_length:
  "embed_chunks colbert_model chunks multi_vectors = Inr r \<Longrightarrow>
   length r \<le> length multi_vectors + length chunks"
proof (induction chunks arbitrary: multi_vectors)
  case Nil
  then show ?case by simp
next
  case (Cons chunk chunks)
  show ?case
  proof (cases "strip chunk \<noteq> []")
    case True
    then obtain v where v: "colbert_model chunk = Inr v"
      and rest: "embed_chunks colbert_model chunks (multi_vectors @ [v]) = Inr r"
      using Cons.prems by (auto split: sum.splits)
    from Cons.IH [OF rest] show ?thesis by simp
  next
    case False
    then have "embed_chunks colbert_model chunks multi_vectors = Inr r"
      using Cons.prems by simp
    from Cons.IH [OF this] show ?thesis by simp
  qed
qed

lemma embed_chunks_unusable:
  "filter (\<lambda>chunk. strip chunk \<noteq> []) chunks = [] \<Longrightarrow>
   embed_chunks colbert_model chunks multi_vectors = Inr multi_vectors"
  by (induction chunks arbitrary: multi_vectors) (auto split: if_splits)

lemma embed_chunks_total:
  "\<forall>s. \<exists>v. colbert_model s = Inr v \<Longrightarrow>
   \<exists>r. embed_chunks colbert_model chunks multi_vectors = Inr r"
proof (induction chunks arbitrary: multi_vectors)
  case Nil
  then show ?case by simp
next
  case (Cons chunk chunks)
  from Cons.prems obtain v where "colbert_model chunk = Inr v" by blast
  with Cons.IH [OF Cons.prems] show ?case by simp
qed

lemma get_colbert_embeddings_total:
  assumes "\<forall>s. \<exists>v. colbert_model s = Inr v"
  shows "\<exists>r. get_colbert_embeddings colbert_model text = Inr r"
proof -
  obtain r where r: "embed_chunks colbert_model (take 8 (chunk_text (clean_text text) 200)) [] = Inr r"
    using embed_chunks_total [OF assms] by blast
  obtain v where v: "colbert_model (clean_text text) = Inr v"
    using assms by blast
  show ?thesis by (simp add: get_colbert_embeddings_def Let_def r v)
qed

lemma get_colbert_embeddings_unfold:
  "get_colbert_embeddings colbert_model text =
     (case embed_chunks colbert_model (take 8 (chunk_text (clean_text text) 200)) [] of
        Inl e \<Rightarrow> Inl e
      | Inr multi_vectors \<Rightarrow>
          (if multi_vectors = [] then
             (case colbert_model (clean_text text) of Inl e \<Rightarrow> Inl e | Inr v \<Rightarrow> Inr [v])
           else Inr multi_vectors))"
  by (simp add: get_colbert_embeddings_def Let_def)

lemma clean_text_empty: "clean_text '''' = ''''"
  by (simp add: clean_text_def)

lemma chunk_text_empty: "chunk_text '''' 200 = []"
  by (simp add: chunk_text_def split_def)

text \<open>
  C6. For every input text and embedding model, when \<^verbatim>\<open>get_colbert_embeddings\<close>
  returns, its list of vectors is not empty and has at most 8 vectors; and when none of
  the first 8 chunks is usable (each is empty once stripped, or there is no chunk), the
  list is the single vector of the whole cleaned text. (With a model that never raises the
  function does return: \<open>get_colbert_embeddings_total\<close>.)
\<close>

theorem colbert_embeddings_bounds:
  assumes "get_colbert_embeddings colbert_model text = Inr multi_vectors"
  shows "multi_vectors \<noteq> [] \<and> length multi_vectors \<le> 8 \<and>
         (filter (\<lambda>chunk. strip chunk \<noteq> []) (take 8 (chunk_text (clean_text text) 200)) = [] \<longrightarrow>
            colbert_model (clean_text text) = Inr (hd multi_vectors) \<and> length multi_vectors = 1)"
proof -
  let ?chunks = "take 8 (chunk_text (clean_text text) 200)"
  obtain r where r: "embed_chunks colbert_model ?chunks [] = Inr r"
    using assms by (auto simp: get_colbert_embeddings_unfold split: sum.splits if_splits)
  have len: "length r \<le> 8"
    using embed_chunks_length [OF r] by simp
  show ?thesis
  proof (cases "r = []")
    case True
    then obtain v where "colbert_model (clean_text text) = Inr v" "multi_vectors = [v]"
      using assms r by (auto simp: get_colbert_embeddings_unfold split: sum.splits if_splits)
    then show ?thesis by simp
  next
    case False
    then have "multi_vectors = r"
      using assms r by (simp add: get_colbert_embeddings_unfold)
    moreover have "filter (\<lambda>chunk. strip chunk \<noteq> []) ?chunks \<noteq> []"
      using embed_chunks_unusable [of ?chunks colbert_model "[]"] r False by auto
    ultimately show ?thesis using False len by simp
  qed
qed

theorem colbert_embeddings_bounds_witness:
  "get_colbert_embeddings length_model '''' = Inr [ [0] ] \<and>
   length_model (clean_text '''') = Inr (hd [ [0] ]) \<and> length [ [0::real] ] = 1 \<and>
   get_colbert_embeddings length_model ''  hello   world  '' = Inr [ [11] ] \<and>
   [ [11::real] ] \<noteq> [] \<and> length [ [11::real] ] \<le> 8"
proof -
  have a: "get_colbert_embeddings length_model '''' = Inr [ [0] ]"
    by (simp add: get_colbert_embeddings_unfold clean_text_empty chunk_text_empty length_model_def)
  have b: "filter (\<lambda>chunk. strip chunk \<noteq> []) (take 8 (chunk_text (clean_text '''') 200)) = []"
    by (simp add: clean_text_empty chunk_text_empty)
  have c: "get_colbert_embeddings length_model ''  hello   world  '' = Inr [ [11] ]"
    by (simp add: get_colbert_embeddings_unfold clean_text_def chunk_text_def split_def
                  is_space_def strip_def length_model_def)
  note t = colbert_embeddings_bounds [OF c]
  show ?thesis
    using a c t [THEN conjunct1] t [THEN conjunct2, THEN conjunct1]
      colbert_embeddings_bounds [OF a, THEN conjunct2, THEN conjunct2, rule_format, OF b]
    by simp
qed

section \<open>The byte vector\<close>

text \<open>
  A dense vector with two different components is quantised without an invalid cast:
  every component of the result is a byte, at most 255.
\<close>

lemma quantize_component:
  fixes lo hi z :: real
  assumes "lo < hi" "lo \<le> z" "z \<le> hi"
  shows "\<exists>n. astype_uint8 (np_mul (np_div (z - lo) (hi - lo)) 255) = Byte n \<and> n \<le> 255"
proof -
  define q where "q = (z - lo) / (hi - lo)"
  have d: "0 < hi - lo" using assms by simp
  have q0: "0 \<le> q" unfolding q_def using assms d by simp
  have q1: "q \<le> 1" unfolding q_def using assms d by (simp add: divide_le_eq)
  have v0: "0 \<le> q * 255" using q0 by simp
  have v1: "q * 255 \<le> 255" using q1 by simp
  have "np_div (z - lo) (hi - lo) = Fin q"
    using d by (simp add: np_div_def q_def)
  then have "astype_uint8 (np_mul (np_div (z - lo) (hi - lo)) 255) = Byte (nat \<lfloor>q * 255\<rfloor>)"
    using v0 v1 by simp
  moreover have "\<lfloor>q * 255\<rfloor> \<le> 255" using v1 by (simp add: floor_le_iff)
  then have "nat \<lfloor>q * 255\<rfloor> \<le> 255" by linarith
  ultimately show ?thesis by blast
qed

lemma quantize_in_range:
  assumes "x \<in> set dense_array" "y \<in> set dense_array" "x \<noteq> y"
  shows "\<exists>bs. quantize dense_array = Inr bs \<and> length bs = length dense_array \<and>
              (\<forall>b \<in> set bs. \<exists>n. b = Byte n \<and> n \<le> 255)"
proof -
  obtain a rest where c: "dense_array = a # rest"
    using assms(1) by (cases dense_array) auto
  let ?lo = "Min (set dense_array)" and ?hi = "Max (set dense_array)"
  have lo: "array_min dense_array = Inr ?lo"
    by (simp only: c array_min.simps Min.set_eq_fold)
  have hi: "array_max dense_array = Inr ?hi"
    by (simp only: c array_max.simps Max.set_eq_fold)
  have "?lo \<le> min x y" using assms by simp
  moreover have "max x y \<le> ?hi" using assms by simp
  moreover have "min x y < max x y" using assms(3) by auto
  ultimately have lt: "?lo < ?hi" by linarith
  have each: "\<forall>z \<in> set dense_array.
                \<exists>n. astype_uint8 (np_mul (np_div (z - ?lo) (?hi - ?lo)) 255) = Byte n \<and> n \<le> 255"
    using lt by (intro ballI quantize_component) simp_all
  have q: "quantize dense_array =
             Inr (map (\<lambda>z. astype_uint8 (np_mul (np_div (z - ?lo) (?hi - ?lo)) 255)) dense_array)"
    by (simp add: quantize_def lo hi)
  show ?thesis using each by (auto simp: q)
qed

text \<open>
  C7. The claim is that the quantisation returns a defined byte vector for every dense
  vector, the one with all components equal included. Evaluated on a model whose dense
  vector is constant: the maximum minus the minimum is zero, each component is the
  quotient \<open>0 / 0\<close>, which is not a number, and its cast to a byte is not defined.
  Nothing is raised, and no component of the result is a byte.
\<close>

theorem byte_vector_degenerate:
  "get_byte_vector constant_model ''contract'' = Inr [InvalidCast, InvalidCast, InvalidCast]"
  by (simp add: get_byte_vector_def get_dense_embedding_def constant_model_def quantize_def
                np_div_def)

end
